theory Spec2Isabelle
  imports Main
begin

section \<open>The Traceflow dashboard plugin (cmd/traceflow-plugin/main.go)\<close>

text \<open>
  The plugin has three handlers: \<open>actionHandler\<close> (submit a trace request, build the
  placeholder graph), \<open>traceflowHandler\<close> (render the content page) and \<open>getTfRows\<close>
  (list the trace requests as table rows). The cluster-state store, the payload of an
  action request, the Graphviz binding and the dashboard's component package are
  libraries the file imports; each is modelled below as far as the handlers use it.
\<close>

subsection \<open>Errors and process exit\<close>

text \<open>
  A Go \<open>error\<close> value. \<open>Wrap msg err\<close> is \<open>fmt.Errorf(msg + ": %w", err)\<close>, \<open>Errorf msg\<close> is
  \<open>fmt.Errorf\<close> without a wrapped error, \<open>PayloadError key\<close> is what the payload's
  string lookup returns for \<open>key\<close>. The three remaining values are the failures of the
  clientset: the resource exists already, the resource is not there, the API server
  cannot be reached.
\<close>

datatype error =
    PayloadError string
  | Wrap string error
  | Errorf string
  | ConflictError
  | NotFoundError
  | TransportError

text \<open>
  A handler either returns to the host, or the process ends in \<open>log.Fatal\<close> /
  \<open>log.Fatalf\<close> (\<open>Fatal fmt err\<close>: the logged format and error, then exit status 1).
\<close>

datatype 'a outcome = Returned 'a | Fatal string error

subsection \<open>The Traceflow resource and the clientset\<close>

text \<open>
  \<open>v1.Packet\<close> and \<open>v1.Status\<close> are declared in pkg/apis/traceflow/v1; the plugin only
  writes their zero values \<open>v1.Packet{}\<close> and \<open>v1.Status{}\<close>. They are kept opaque here:
  the zero value, or some content the cluster system has filled in.
\<close>

datatype packet = Packet_zero | Packet_content string
datatype status = Status_zero | Status_content string

text \<open>\<open>Name\<close> is the \<open>ObjectMeta.Name\<close> of the resource (a promoted field in Go).\<close>

record traceflow =
  Name :: string
  SrcNamespace :: string
  SrcPod :: string
  DstNamespace :: string
  DstPod :: string
  DstService :: string
  RoundID :: string
  Packet :: packet
  Status :: status

text \<open>
  The clientset's three calls on Traceflows, over a store of type \<open>'s\<close>. Each returns
  its answer and the store after the call. Nothing is assumed about what they answer.
\<close>

record 's clientset =
  Create :: "traceflow \<Rightarrow> 's \<Rightarrow> (error + traceflow) \<times> 's"
  Get :: "string \<Rightarrow> 's \<Rightarrow> (error + traceflow) \<times> 's"
  List :: "'s \<Rightarrow> (error + traceflow list) \<times> 's"

datatype store_call = CreateCall traceflow | GetCall string | ListCall

text \<open>The world outside the process: the store, and the calls issued against it so far.\<close>

record 's world =
  store :: 's
  calls :: "store_call list"

definition Traceflows_Create ::
  "'s clientset \<Rightarrow> traceflow \<Rightarrow> 's world \<Rightarrow> (error + traceflow) \<times> 's world" where
  "Traceflows_Create c tf w =
     (case Create c tf (store w) of
        (r, s') \<Rightarrow> (r, \<lparr>store = s', calls = calls w @ [CreateCall tf]\<rparr>))"

definition Traceflows_Get ::
  "'s clientset \<Rightarrow> string \<Rightarrow> 's world \<Rightarrow> (error + traceflow) \<times> 's world" where
  "Traceflows_Get c name w =
     (case Get c name (store w) of
        (r, s') \<Rightarrow> (r, \<lparr>store = s', calls = calls w @ [GetCall name]\<rparr>))"

definition Traceflows_List ::
  "'s clientset \<Rightarrow> 's world \<Rightarrow> (error + traceflow list) \<times> 's world" where
  "Traceflows_List c w =
     (case List c (store w) of
        (r, s') \<Rightarrow> (r, \<lparr>store = s', calls = calls w @ [ListCall]\<rparr>))"

subsection \<open>The payload of an action request\<close>

text \<open>
  \<open>request.Payload\<close> is a \<open>map[string]interface{}\<close> decoded from JSON. Its \<open>String(key)\<close>
  succeeds exactly when the key is present with a string value (the empty string
  included).
\<close>

datatype jvalue = JString string | JNumber int | JBool bool | JNull

type_synonym payload = "string \<rightharpoonup> jvalue"

definition Payload_String :: "payload \<Rightarrow> string \<Rightarrow> error + string" where
  "Payload_String p key =
     (case p key of
        Some (JString s) \<Rightarrow> Inr s
      | _ \<Rightarrow> Inl (PayloadError key))"

subsection \<open>The Graphviz graph\<close>

text \<open>
  A Graphviz graph as the handler uses it. Nodes are identified by their name:
  \<open>CreateNode\<close> with a name the graph already has returns that node. A node handle is
  its name, an edge handle the position of the edge. The operations on the graph in
  memory do not fail here; the handler keeps the source's checks of their errors.
  Rendering is left to the caller of the model (\<open>Render\<close> below is a parameter).
\<close>

record edge =
  e_name :: string
  e_tail :: string
  e_head :: string
  e_label :: string

record cgraph =
  nodes :: "string list"
  edges :: "edge list"

definition Graph :: "cgraph" where
  "Graph = \<lparr>nodes = [], edges = []\<rparr>"

definition CreateNode :: "cgraph \<Rightarrow> string \<Rightarrow> error + (string \<times> cgraph)" where
  "CreateNode g name =
     Inr (name, if name \<in> set (nodes g) then g else g\<lparr>nodes := nodes g @ [name]\<rparr>)"

definition CreateEdge :: "cgraph \<Rightarrow> string \<Rightarrow> string \<Rightarrow> string \<Rightarrow> error + (nat \<times> cgraph)" where
  "CreateEdge g name n m =
     Inr (length (edges g),
          g\<lparr>edges := edges g @ [\<lparr>e_name = name, e_tail = n, e_head = m, e_label = ''''\<rparr>]\<rparr>)"

definition SetLabel :: "cgraph \<Rightarrow> nat \<Rightarrow> string \<Rightarrow> cgraph" where
  "SetLabel g e l =
     (if e < length (edges g)
      then g\<lparr>edges := (edges g)[e := (edges g ! e)\<lparr>e_label := l\<rparr>]\<rparr>
      else g)"

definition Close :: "cgraph \<Rightarrow> error option" where
  "Close g = None"

subsection \<open>The plugin and its action handler\<close>

definition pluginName :: string where
  "pluginName = ''traceflowPlugin''"

definition addTfAction :: string where
  "addTfAction = ''traceflowPlugin/addTf''"

definition showGraphAction :: string where
  "showGraphAction = ''traceflowPlugin/showGraphAction''"

record 's traceflowPlugin =
  client :: "'s clientset"
  graph :: string

text \<open>
  \<open>actionHandler\<close>, lines 96 to 177. The result is the returned error (\<open>None\<close> is
  \<open>nil\<close>) with the plugin instance after the call, or the exit of the process, and the
  world after the call.
\<close>

definition actionHandler ::
  "(cgraph \<Rightarrow> string \<Rightarrow> error + string) \<Rightarrow> 's traceflowPlugin \<Rightarrow> payload \<Rightarrow> 's world
     \<Rightarrow> (error option \<times> 's traceflowPlugin) outcome \<times> 's world" where
  "actionHandler Render a request w =
    (case Payload_String request ''action'' of
       Inl err \<Rightarrow> (Returned (Some (Wrap ''unable to get input at string'' err), a), w)
     | Inr actionName \<Rightarrow>
       if actionName = addTfAction then
         (case Payload_String request ''name'' of
            Inl err \<Rightarrow> (Returned (Some (Wrap ''unable to get name at string '' err), a), w)
          | Inr name \<Rightarrow>
         (case Payload_String request ''fromNamespace'' of
            Inl err \<Rightarrow>
              (Returned (Some (Wrap ''unable to get fromNamespace at string '' err), a), w)
          | Inr fromNamespace \<Rightarrow>
         (case Payload_String request ''fromPod'' of
            Inl err \<Rightarrow> (Returned (Some (Wrap ''unable to get fromPod at string '' err), a), w)
          | Inr fromPod \<Rightarrow>
         (case Payload_String request ''toNamespace'' of
            Inl err \<Rightarrow>
              (Returned (Some (Wrap ''unable to get toNamespace at string '' err), a), w)
          | Inr toNamespace \<Rightarrow>
         (case Payload_String request ''toPod'' of
            Inl err \<Rightarrow> (Returned (Some (Wrap ''unable to get toPod at string '' err), a), w)
          | Inr toPod \<Rightarrow>
         (case Traceflows_Create (client a)
                 \<lparr>Name = name,
                  SrcNamespace = fromNamespace,
                  SrcPod = fromPod,
                  DstNamespace = toNamespace,
                  DstPod = toPod,
                  DstService = '''',
                  RoundID = '''',
                  Packet = Packet_zero,
                  Status = Status_zero\<rparr> w of
            (Inl err, w') \<Rightarrow> (Returned (Some err, a), w')
          | (Inr _, w') \<Rightarrow> (Returned (None, a), w')))))))
       else if actionName = showGraphAction then
         (case Payload_String request ''name'' of
            Inl err \<Rightarrow> (Returned (Some (Wrap ''unable to get name at string '' err), a), w)
          | Inr name \<Rightarrow>
         (case Traceflows_Get (client a) name w of
            (_, w') \<Rightarrow>
         (case CreateNode Graph name of
            Inl err \<Rightarrow> (Fatal '''' err, w')
          | Inr (n, g1) \<Rightarrow>
         (case CreateNode g1 ''m'' of
            Inl err \<Rightarrow> (Fatal '''' err, w')
          | Inr (m, g2) \<Rightarrow>
         (case CreateEdge g2 ''e'' n m of
            Inl err \<Rightarrow> (Fatal '''' err, w')
          | Inr (e, g3) \<Rightarrow>
         (case Render (SetLabel g3 e ''e'') ''dot'' of
            Inl err \<Rightarrow> (Fatal '''' err, w')
          | Inr buf \<Rightarrow>
         (case Close (SetLabel g3 e ''e'') of
            Some err \<Rightarrow> (Fatal '''' err, w')
          | None \<Rightarrow> (Returned (None, a\<lparr>graph := buf\<rparr>), w'))))))))
       else
         (Returned
            (Some (Errorf (''recieved action request for '' @ pluginName @
                           '', but no handler defined'')), a), w))"

subsection \<open>The dashboard's components\<close>

text \<open>
  The values the component package builds, as far as the page uses them. A table row
  is a Go map from column name to component; it is kept as the list of its entries in
  the order the source writes them, and read with \<open>map_of\<close>. \<open>component.WidthFull\<close> and
  \<open>icon.Overview\<close> are constants of the host's packages and stay symbolic.
\<close>

datatype formField = FormFieldText string string string | FormFieldHidden string string

record form =
  Fields :: "formField list"

record action =
  a_Name :: string
  a_Title :: string
  a_Form :: form

datatype width = WidthFull

datatype icon = icon_Overview

datatype component =
    Text string
  | Graphviz string
  | Link string string string
  | Card string "component option" "action list"
  | FlexLayout string "(component \<times> width) list list"
  | Table string string "string list" "(string \<times> component) list list"

type_synonym tableRow = "(string \<times> component) list"

definition NewCard :: "string \<Rightarrow> component" where
  "NewCard title = Card title None []"

fun SetBody :: "component \<Rightarrow> component \<Rightarrow> component" where
  "SetBody (Card title b as) body = Card title (Some body) as"
| "SetBody c body = c"

fun AddAction :: "component \<Rightarrow> action \<Rightarrow> component" where
  "AddAction (Card title b as) act = Card title b (as @ [act])"
| "AddAction c act = c"

fun card_title :: "component \<Rightarrow> string option" where
  "card_title (Card title b as) = Some title"
| "card_title c = None"

text \<open>
  A flex layout owns its sections; \<open>AddSection\<close> hands out a pointer to the new section,
  here its index, and \<open>Section_Add\<close> appends a member to the section at that index. It
  returns an error value, which the page handler checks.
\<close>

record layout =
  sections :: "(component \<times> width) list list"

definition flexlayout_New :: layout where
  "flexlayout_New = \<lparr>sections = []\<rparr>"

definition AddSection :: "layout \<Rightarrow> nat \<times> layout" where
  "AddSection l = (length (sections l), l\<lparr>sections := sections l @ [[]]\<rparr>)"

definition Section_Add :: "layout \<Rightarrow> nat \<Rightarrow> component \<Rightarrow> width \<Rightarrow> error option \<times> layout" where
  "Section_Add l i view wd =
     (if i < length (sections l)
      then (None, l\<lparr>sections := (sections l)[i := sections l ! i @ [(view, wd)]]\<rparr>)
      else (Some (Errorf ''no such section''), l))"

definition ToComponent :: "layout \<Rightarrow> string \<Rightarrow> component" where
  "ToComponent l title = FlexLayout title (sections l)"

record ContentResponse =
  Title :: "component list"
  Components :: "component list"
  IconName :: "icon option"
  IconSource :: "icon option"

definition ContentResponse_zero :: ContentResponse where
  "ContentResponse_zero = \<lparr>Title = [], Components = [], IconName = None, IconSource = None\<rparr>"

definition TitleFromString :: "string \<Rightarrow> component list" where
  "TitleFromString s = [Text s]"

subsection \<open>The table of trace requests\<close>

definition tfNameCol :: string where "tfNameCol = ''Trace''"
definition srcNamespaceCol :: string where "srcNamespaceCol = ''Source Namespace''"
definition srcPodCol :: string where "srcPodCol = ''Source Pod''"
definition dstNamespaceCol :: string where "dstNamespaceCol = ''Destination Namespace''"
definition dstPodCol :: string where "dstPodCol = ''Destination Pod''"
definition crdCol :: string where "crdCol = ''Detailed Information''"

text \<open>The loop of \<open>getTfRows\<close> (lines 251 to 261): one row is appended per item.\<close>

fun tfRows_loop :: "traceflow list \<Rightarrow> tableRow list \<Rightarrow> tableRow list" where
  "tfRows_loop [] tfRows = tfRows"
| "tfRows_loop (tf # items) tfRows =
     tfRows_loop items
       (tfRows @
        [[(tfNameCol, Text (Name tf)),
          (srcNamespaceCol, Text (SrcNamespace tf)),
          (srcPodCol, Text (SrcPod tf)),
          (dstNamespaceCol, Text (DstNamespace tf)),
          (dstPodCol, Text (DstPod tf)),
          (crdCol,
           Link (Name tf) (Name tf)
             (''/cluster-overview/custom-resources/traceflows.antrea.tanzu.vmware.com/'' @
              Name tf))]])"

text \<open>
  \<open>getTfRows\<close>, lines 245 to 263. It lists through the package-level variable \<open>client\<close>
  (set by \<open>newTraceflowPlugin\<close> to the clientset it also stores in the plugin
  instance), not through the receiver, so the clientset is an argument of its own.
  A failed list ends the process in \<open>log.Fatalf\<close>.
\<close>

definition getTfRows :: "'s clientset \<Rightarrow> 's world \<Rightarrow> tableRow list outcome \<times> 's world" where
  "getTfRows gclient w =
     (case Traceflows_List gclient w of
        (Inl err, w') \<Rightarrow> (Fatal ''Failed to get Traceflows %v'' err, w')
      | (Inr tfs, w') \<Rightarrow> (Returned (tfRows_loop tfs []), w'))"

subsection \<open>The content page\<close>

text \<open>\<open>traceflowHandler\<close>, lines 183 to 242; \<open>gclient\<close> is the package-level \<open>client\<close>.\<close>

definition traceflowHandler ::
  "'s clientset \<Rightarrow> 's traceflowPlugin \<Rightarrow> 's world
     \<Rightarrow> (ContentResponse \<times> error option) outcome \<times> 's world" where
  "traceflowHandler gclient a w =
    (let layout0 = flexlayout_New;
         card0 = NewCard ''Antrea Traceflow'';
         form = \<lparr>Fields =
                  [FormFieldText ''name'' ''name'' '''',
                   FormFieldText ''fromNamespace'' ''fromNamespace'' '''',
                   FormFieldText ''fromPod'' ''fromPod'' '''',
                   FormFieldText ''toNamespace'' ''toNamespace'' '''',
                   FormFieldText ''toPod'' ''toPod'' '''',
                   FormFieldHidden ''action'' addTfAction]\<rparr>;
         addTf = \<lparr>a_Name = ''Start New Trace'', a_Title = ''Start New Trace'', a_Form = form\<rparr>;
         graphForm = \<lparr>Fields =
                       [FormFieldText ''name'' ''name'' '''',
                        FormFieldHidden ''action'' showGraphAction]\<rparr>;
         genGraph = \<lparr>a_Name = ''Generate Trace Graph'', a_Title = ''Generate Trace Graph'',
                     a_Form = graphForm\<rparr>;
         card = AddAction (AddAction (SetBody card0 (Text '''')) addTf) genGraph;
         graphCard0 = NewCard ''Antrea Traceflow Graph'';
         graphCard = (if graph a \<noteq> '''' then SetBody graphCard0 (Graphviz (graph a))
                      else SetBody graphCard0 (Text ''''))
     in
     case AddSection layout0 of
       (listSection, layout1) \<Rightarrow>
     (case Section_Add layout1 listSection card WidthFull of
        (Some err, layout2) \<Rightarrow>
          (Returned (ContentResponse_zero, Some (Wrap ''error adding card to section'' err)), w)
      | (None, layout2) \<Rightarrow>
     (case (if graph a \<noteq> '''' then Section_Add layout2 listSection graphCard WidthFull
            else (None, layout2)) of
        (Some err, layout3) \<Rightarrow>
          (Returned (ContentResponse_zero,
                     Some (Wrap ''error adding graphCard to section'' err)), w)
      | (None, layout3) \<Rightarrow>
     (let tfCols = [tfNameCol, srcNamespaceCol, srcPodCol, dstNamespaceCol, dstPodCol, crdCol]
      in
      case getTfRows gclient w of
        (Fatal msg err, w') \<Rightarrow> (Fatal msg err, w')
      | (Returned rows, w') \<Rightarrow>
          (Returned
             (\<lparr>Title = TitleFromString ''Antrea Traceflow'',
               Components =
                 [ToComponent layout3 ''Antrea Traceflow'',
                  Table ''Trace List'' '''' tfCols rows],
               IconName = Some icon_Overview,
               IconSource = Some icon_Overview\<rparr>, None), w')))))"

subsection \<open>Two clientsets for the examples\<close>

text \<open>
  A store in memory that holds the resources in a list: create refuses a name that
  exists, get looks a name up, list returns everything. And a clientset whose API
  server cannot be reached.
\<close>

definition memClient :: "traceflow list clientset" where
  "memClient =
     \<lparr>Create = (\<lambda>tf s. if Name tf \<in> set (map Name s) then (Inl ConflictError, s)
                         else (Inr tf, s @ [tf])),
      Get = (\<lambda>name s. case find (\<lambda>tf. Name tf = name) s of
                          None \<Rightarrow> (Inl NotFoundError, s)
                        | Some tf \<Rightarrow> (Inr tf, s)),
      List = (\<lambda>s. (Inr s, s))\<rparr>"

definition downClient :: "traceflow list clientset" where
  "downClient =
     \<lparr>Create = (\<lambda>tf s. (Inl TransportError, s)),
      Get = (\<lambda>name s. (Inl TransportError, s)),
      List = (\<lambda>s. (Inl TransportError, s))\<rparr>"

text \<open>A renderer for the examples: it prints the node names and the edges.\<close>

definition showDot :: "cgraph \<Rightarrow> string \<Rightarrow> error + string" where
  "showDot g fmt =
     Inr (concat (map (\<lambda>n. n @ ''; '') (nodes g)) @
          concat (map (\<lambda>e. e_tail e @ '' -> '' @ e_head e @ '' ['' @ e_label e @ '']; '')
                   (edges g)))"

definition emptyWorld :: "traceflow list world" where
  "emptyWorld = \<lparr>store = [], calls = []\<rparr>"

definition plugin0 :: "traceflow list clientset \<Rightarrow> traceflow list traceflowPlugin" where
  "plugin0 c = \<lparr>client = c, graph = ''''\<rparr>"

text \<open>The payloads the two forms of the page send.\<close>

definition submitPayload :: "string \<Rightarrow> string \<Rightarrow> string \<Rightarrow> string \<Rightarrow> string \<Rightarrow> payload" where
  "submitPayload name fromNamespace fromPod toNamespace toPod =
     [''action'' \<mapsto> JString addTfAction,
      ''name'' \<mapsto> JString name,
      ''fromNamespace'' \<mapsto> JString fromNamespace,
      ''fromPod'' \<mapsto> JString fromPod,
      ''toNamespace'' \<mapsto> JString toNamespace,
      ''toPod'' \<mapsto> JString toPod]"



subsection \<open>What the specification expects\<close>

text \<open>The resource a submit of five values is to create: every other field is zero.\<close>

definition submitted :: "string \<Rightarrow> string \<Rightarrow> string \<Rightarrow> string \<Rightarrow> string \<Rightarrow> traceflow" where
  "submitted name sourceNamespace sourcePod destinationNamespace destinationPod =
     \<lparr>Name = name, SrcNamespace = sourceNamespace, SrcPod = sourcePod,
      DstNamespace = destinationNamespace, DstPod = destinationPod,
      DstService = '''', RoundID = '''', Packet = Packet_zero, Status = Status_zero\<rparr>"

text \<open>
  The display row of an entity: five texts taken from the entity, and a reference whose
  identifier is the name and whose target is the base path, a slash and the name.
\<close>

definition basePath :: string where
  "basePath = ''/cluster-overview/custom-resources/traceflows.antrea.tanzu.vmware.com''"

definition displayRow :: "traceflow \<Rightarrow> tableRow" where
  "displayRow tf =
     [(''Trace'', Text (Name tf)),
      (''Source Namespace'', Text (SrcNamespace tf)),
      (''Source Pod'', Text (SrcPod tf)),
      (''Destination Namespace'', Text (DstNamespace tf)),
      (''Destination Pod'', Text (DstPod tf)),
      (''Detailed Information'', Link (Name tf) (Name tf) (basePath @ ''/'' @ Name tf))]"

section \<open>Properties\<close>

subsection \<open>Running the two actions\<close>

lemma submitPayload_lookups:
  "Payload_String (submitPayload n fn fp tn tp) ''action'' = Inr addTfAction"
  "Payload_String (submitPayload n fn fp tn tp) ''name'' = Inr n"
  "Payload_String (submitPayload n fn fp tn tp) ''fromNamespace'' = Inr fn"
  "Payload_String (submitPayload n fn fp tn tp) ''fromPod'' = Inr fp"
  "Payload_String (submitPayload n fn fp tn tp) ''toNamespace'' = Inr tn"
  "Payload_String (submitPayload n fn fp tn tp) ''toPod'' = Inr tp"
  by (simp_all add: Payload_String_def submitPayload_def)


text \<open>
  With the five strings read, the add-traceflow branch is one create call; the handler
  returns the call's error, or \<open>nil\<close>.
\<close>

lemma addTf_run:
  assumes "Payload_String request ''action'' = Inr addTfAction"
    and "Payload_String request ''name'' = Inr name"
    and "Payload_String request ''fromNamespace'' = Inr fromNamespace"
    and "Payload_String request ''fromPod'' = Inr fromPod"
    and "Payload_String request ''toNamespace'' = Inr toNamespace"
    and "Payload_String request ''toPod'' = Inr toPod"
    and "Create (client a) (submitted name fromNamespace fromPod toNamespace toPod) (store w)
           = (r, s')"
  shows "actionHandler Render a request w =
     (Returned (case r of Inl err \<Rightarrow> Some err | Inr created \<Rightarrow> None, a),
      \<lparr>store = s',
       calls = calls w @
               [CreateCall (submitted name fromNamespace fromPod toNamespace toPod)]\<rparr>)"
  using assms
  by (simp add: actionHandler_def Traceflows_Create_def submitted_def split: sum.splits)


subsection \<open>The rows of the table\<close>

lemma tfRows_loop_map: "tfRows_loop tfs tfRows = tfRows @ map displayRow tfs"
  by (induction tfs arbitrary: tfRows)
     (simp_all add: displayRow_def basePath_def tfNameCol_def srcNamespaceCol_def
        srcPodCol_def dstNamespaceCol_def dstPodCol_def crdCol_def)

subsection \<open>Claims\<close>

text \<open>
  C1 (as amended). The handler does not validate the five values. When all five keys
  hold strings and any of them is the empty string, the create call is issued with the
  values as given; an error is returned only when that create call fails, and it is
  the call's error; when the call succeeds the handler returns \<open>nil\<close>.
\<close>

theorem empty_field_submit_reaches_store:
  assumes "Payload_String request ''action'' = Inr addTfAction"
    and "Payload_String request ''name'' = Inr name"
    and "Payload_String request ''fromNamespace'' = Inr fromNamespace"
    and "Payload_String request ''fromPod'' = Inr fromPod"
    and "Payload_String request ''toNamespace'' = Inr toNamespace"
    and "Payload_String request ''toPod'' = Inr toPod"
    and "name = '''' \<or> fromNamespace = '''' \<or> fromPod = '''' \<or> toNamespace = ''''
         \<or> toPod = ''''"
  shows "CreateCall (submitted name fromNamespace fromPod toNamespace toPod)
           \<in> set (calls (snd (actionHandler Render a request w)))
     \<and> (\<forall>err. fst (actionHandler Render a request w) = Returned (Some err, a) \<longrightarrow>
          fst (Create (client a) (submitted name fromNamespace fromPod toNamespace toPod)
                 (store w)) = Inl err)
     \<and> (\<forall>created.
          fst (Create (client a) (submitted name fromNamespace fromPod toNamespace toPod)
                 (store w)) = Inr created \<longrightarrow>
          fst (actionHandler Render a request w) = Returned (None, a))"
proof -
  let ?tf = "submitted name fromNamespace fromPod toNamespace toPod"
  obtain r s' where c: "Create (client a) ?tf (store w) = (r, s')"
    by (cases "Create (client a) ?tf (store w)")
  show ?thesis
    using addTf_run [OF assms(1-6) c] c by (auto split: sum.splits)
qed

theorem empty_field_submit_reaches_store_witness:
  "CreateCall (submitted ''t1'' ''default'' '''' ''default'' ''pod-b'')
     \<in> set (calls (snd (actionHandler showDot (plugin0 downClient)
               (submitPayload ''t1'' ''default'' '''' ''default'' ''pod-b'') emptyWorld)))
   \<and> fst (actionHandler showDot (plugin0 downClient)
            (submitPayload ''t1'' ''default'' '''' ''default'' ''pod-b'') emptyWorld)
       = Returned (Some TransportError, plugin0 downClient)
   \<and> fst (Create (client (plugin0 downClient))
            (submitted ''t1'' ''default'' '''' ''default'' ''pod-b'') (store emptyWorld))
       = Inl TransportError"
  using empty_field_submit_reaches_store
          [where request = "submitPayload ''t1'' ''default'' '''' ''default'' ''pod-b''"
             and Render = showDot and a = "plugin0 downClient" and w = emptyWorld,
           OF submitPayload_lookups]
        addTf_run
          [where request = "submitPayload ''t1'' ''default'' '''' ''default'' ''pod-b''"
             and Render = showDot and a = "plugin0 downClient" and w = emptyWorld,
           OF submitPayload_lookups]
  by (simp add: plugin0_def downClient_def emptyWorld_def)

text \<open>
  The claim as written fails: a submit with the empty name and a store that accepts it
  returns \<open>nil\<close>, and the create call has been issued.
\<close>

theorem empty_name_submit_counterexample:
  "actionHandler showDot (plugin0 memClient)
     (submitPayload '''' ''default'' ''pod-a'' ''default'' ''pod-b'') emptyWorld
   = (Returned (None, plugin0 memClient),
      \<lparr>store = [submitted '''' ''default'' ''pod-a'' ''default'' ''pod-b''],
       calls = [CreateCall (submitted '''' ''default'' ''pod-a'' ''default'' ''pod-b'')]\<rparr>)"
  by (simp add: addTf_run [where r = "Inr (submitted '''' ''default'' ''pod-a'' ''default'' ''pod-b'')"
                             and s' = "[submitted '''' ''default'' ''pod-a'' ''default'' ''pod-b'']"]
        submitPayload_lookups plugin0_def memClient_def emptyWorld_def)

text \<open>
  C2 (as amended). When the list call fails, \<open>getTfRows\<close> ends the process in
  \<open>log.Fatalf\<close> after the one list call; nothing is returned to its caller, the page
  handler, which therefore ends the same way.
\<close>

theorem list_failure_ends_process:
  assumes "List gclient (store w) = (Inl err, s')"
  shows "getTfRows gclient w
           = (Fatal ''Failed to get Traceflows %v'' err,
              \<lparr>store = s', calls = calls w @ [ListCall]\<rparr>)
     \<and> traceflowHandler gclient a w
           = (Fatal ''Failed to get Traceflows %v'' err,
              \<lparr>store = s', calls = calls w @ [ListCall]\<rparr>)"
  using assms
  by (simp add: getTfRows_def Traceflows_List_def traceflowHandler_def Let_def
        AddSection_def Section_Add_def flexlayout_New_def NewCard_def)

theorem list_failure_ends_process_witness:
  "List downClient (store emptyWorld) = (Inl TransportError, [])
   \<and> getTfRows downClient emptyWorld
           = (Fatal ''Failed to get Traceflows %v'' TransportError,
              \<lparr>store = [], calls = calls emptyWorld @ [ListCall]\<rparr>)
     \<and> traceflowHandler downClient (plugin0 downClient) emptyWorld
           = (Fatal ''Failed to get Traceflows %v'' TransportError,
              \<lparr>store = [], calls = calls emptyWorld @ [ListCall]\<rparr>)"
  using list_failure_ends_process [of downClient emptyWorld TransportError "[]" "plugin0 downClient"]
  by (simp add: downClient_def emptyWorld_def)

text \<open>The claim as written fails: with the API server out of reach the outcome is the exit.\<close>

theorem list_failure_counterexample:
  "getTfRows downClient emptyWorld
     = (Fatal ''Failed to get Traceflows %v'' TransportError,
        \<lparr>store = [], calls = [ListCall]\<rparr>)"
  by (simp add: getTfRows_def Traceflows_List_def downClient_def emptyWorld_def)




text \<open>
  C4 (as amended). A submit issues exactly one create call. When the call fails, its
  error is returned to the caller as it is (a conflict when the store reports the name
  as existing, a transport error when the store is out of reach); when it succeeds the
  handler returns \<open>nil\<close>, and the created resource the call returned is dropped.
\<close>

theorem submit_returns_create_answer_once:
  assumes "Payload_String request ''action'' = Inr addTfAction"
    and "Payload_String request ''name'' = Inr name"
    and "Payload_String request ''fromNamespace'' = Inr fromNamespace"
    and "Payload_String request ''fromPod'' = Inr fromPod"
    and "Payload_String request ''toNamespace'' = Inr toNamespace"
    and "Payload_String request ''toPod'' = Inr toPod"
    and "Create (client a) (submitted name fromNamespace fromPod toNamespace toPod) (store w)
           = (r, s')"
  shows "fst (actionHandler Render a request w) =
           (case r of Inl err \<Rightarrow> Returned (Some err, a) | Inr created \<Rightarrow> Returned (None, a))
     \<and> snd (actionHandler Render a request w) =
           \<lparr>store = s',
            calls = calls w @
                    [CreateCall (submitted name fromNamespace fromPod toNamespace toPod)]\<rparr>"
  using addTf_run [OF assms, of Render] by (simp split: sum.splits)

text \<open>A second submit of a name the store holds: the conflict is returned, after one call.\<close>

theorem submit_returns_create_answer_once_witness:
  "Create (client (plugin0 memClient))
      (submitted ''t1'' ''default'' ''pod-a'' ''default'' ''pod-b'')
      (store \<lparr>store = [submitted ''t1'' ''kube-system'' ''pod-c'' ''default'' ''pod-d''],
              calls = []\<rparr>)
     = (Inl ConflictError, [submitted ''t1'' ''kube-system'' ''pod-c'' ''default'' ''pod-d''])
   \<and> fst (actionHandler showDot (plugin0 memClient)
            (submitPayload ''t1'' ''default'' ''pod-a'' ''default'' ''pod-b'')
            \<lparr>store = [submitted ''t1'' ''kube-system'' ''pod-c'' ''default'' ''pod-d''],
             calls = []\<rparr>)
       = Returned (Some ConflictError, plugin0 memClient)
   \<and> snd (actionHandler showDot (plugin0 memClient)
            (submitPayload ''t1'' ''default'' ''pod-a'' ''default'' ''pod-b'')
            \<lparr>store = [submitted ''t1'' ''kube-system'' ''pod-c'' ''default'' ''pod-d''],
             calls = []\<rparr>)
       = \<lparr>store = [submitted ''t1'' ''kube-system'' ''pod-c'' ''default'' ''pod-d''],
          calls = [CreateCall (submitted ''t1'' ''default'' ''pod-a'' ''default'' ''pod-b'')]\<rparr>"
  using submit_returns_create_answer_once
          [where request = "submitPayload ''t1'' ''default'' ''pod-a'' ''default'' ''pod-b''"
             and Render = showDot and a = "plugin0 memClient"
             and w = "\<lparr>store = [submitted ''t1'' ''kube-system'' ''pod-c'' ''default'' ''pod-d''],
                        calls = []\<rparr>"
             and r = "Inl ConflictError"
             and s' = "[submitted ''t1'' ''kube-system'' ''pod-c'' ''default'' ''pod-d'']",
           OF submitPayload_lookups]
  by (simp add: plugin0_def memClient_def submitted_def)

text \<open>
  The claim as written fails in its first part: two successful submits of different
  names return the same value, so the result does not carry the identity of the
  created request.
\<close>

theorem submit_success_returns_nil_counterexample:
  "fst (actionHandler showDot (plugin0 memClient)
          (submitPayload ''t1'' ''default'' ''pod-a'' ''default'' ''pod-b'') emptyWorld)
     = Returned (None, plugin0 memClient)
   \<and> fst (actionHandler showDot (plugin0 memClient)
          (submitPayload ''t2'' ''default'' ''pod-a'' ''default'' ''pod-b'') emptyWorld)
     = Returned (None, plugin0 memClient)"
  by (simp add: addTf_run [where r = "Inr tf" and s' = "[tf]" for tf]
        submitPayload_lookups plugin0_def memClient_def emptyWorld_def)

text \<open>
  C5. The resource passed to the create call has the five submitted values in its
  name, source namespace, source pod, destination namespace and destination pod, and
  the zero value in destination service, round id, packet and status.
\<close>

theorem submit_create_call_resource:
  assumes "Payload_String request ''action'' = Inr addTfAction"
    and "Payload_String request ''name'' = Inr name"
    and "Payload_String request ''fromNamespace'' = Inr fromNamespace"
    and "Payload_String request ''fromPod'' = Inr fromPod"
    and "Payload_String request ''toNamespace'' = Inr toNamespace"
    and "Payload_String request ''toPod'' = Inr toPod"
  shows "\<exists>tf. calls (snd (actionHandler Render a request w)) = calls w @ [CreateCall tf]
     \<and> Name tf = name \<and> SrcNamespace tf = fromNamespace \<and> SrcPod tf = fromPod
     \<and> DstNamespace tf = toNamespace \<and> DstPod tf = toPod
     \<and> DstService tf = '''' \<and> RoundID tf = ''''
     \<and> Packet tf = Packet_zero \<and> Status tf = Status_zero"
proof -
  let ?tf = "submitted name fromNamespace fromPod toNamespace toPod"
  obtain r s' where "Create (client a) ?tf (store w) = (r, s')"
    by (cases "Create (client a) ?tf (store w)")
  from addTf_run [OF assms this]
  have "calls (snd (actionHandler Render a request w)) = calls w @ [CreateCall ?tf]"
    by simp
  moreover have "Name ?tf = name" "SrcNamespace ?tf = fromNamespace" "SrcPod ?tf = fromPod"
    "DstNamespace ?tf = toNamespace" "DstPod ?tf = toPod" "DstService ?tf = ''''"
    "RoundID ?tf = ''''" "Packet ?tf = Packet_zero" "Status ?tf = Status_zero"
    by (simp_all add: submitted_def)
  ultimately show ?thesis by blast
qed

theorem submit_create_call_resource_witness:
  "\<exists>tf. calls (snd (actionHandler showDot (plugin0 memClient)
            (submitPayload ''t1'' ''default'' ''pod-a'' ''kube-system'' ''pod-b'') emptyWorld))
          = calls emptyWorld @ [CreateCall tf]
     \<and> Name tf = ''t1'' \<and> SrcNamespace tf = ''default'' \<and> SrcPod tf = ''pod-a''
     \<and> DstNamespace tf = ''kube-system'' \<and> DstPod tf = ''pod-b''
     \<and> DstService tf = '''' \<and> RoundID tf = ''''
     \<and> Packet tf = Packet_zero \<and> Status tf = Status_zero"
  using submit_create_call_resource
          [where request = "submitPayload ''t1'' ''default'' ''pod-a'' ''kube-system'' ''pod-b''"
             and Render = showDot and a = "plugin0 memClient" and w = emptyWorld]
  by (simp add: submitPayload_lookups)

text \<open>
  C6. When the list call answers with entities, \<open>getTfRows\<close> returns one row per entity,
  in the order of the answer, and each row is the display row of its entity: the five
  texts and the reference to \<open>basePath\<close>, a slash and the name.
\<close>

theorem rows_show_entity_fields:
  assumes "List gclient (store w) = (Inr tfs, s')"
  shows "\<exists>rows. fst (getTfRows gclient w) = Returned rows
           \<and> length rows = length tfs
           \<and> (\<forall>i < length tfs. rows ! i = displayRow (tfs ! i))"
  using assms by (simp add: getTfRows_def Traceflows_List_def tfRows_loop_map)

theorem rows_show_entity_fields_witness:
  "List memClient (store \<lparr>store = [submitted ''t1'' ''default'' ''pod-a'' ''default'' ''pod-b''],
                           calls = []\<rparr>)
     = (Inr [submitted ''t1'' ''default'' ''pod-a'' ''default'' ''pod-b''],
        [submitted ''t1'' ''default'' ''pod-a'' ''default'' ''pod-b''])
   \<and> (\<exists>rows.
        fst (getTfRows memClient
              \<lparr>store = [submitted ''t1'' ''default'' ''pod-a'' ''default'' ''pod-b''],
               calls = []\<rparr>)
          = Returned rows
      \<and> length rows = 1
      \<and> rows ! 0 =
          [(''Trace'', Text ''t1''),
           (''Source Namespace'', Text ''default''),
           (''Source Pod'', Text ''pod-a''),
           (''Destination Namespace'', Text ''default''),
           (''Destination Pod'', Text ''pod-b''),
           (''Detailed Information'',
            Link ''t1'' ''t1''
              ''/cluster-overview/custom-resources/traceflows.antrea.tanzu.vmware.com/t1'')])"
  using rows_show_entity_fields
          [of memClient "\<lparr>store = [submitted ''t1'' ''default'' ''pod-a'' ''default'' ''pod-b''],
                           calls = []\<rparr>"
              "[submitted ''t1'' ''default'' ''pod-a'' ''default'' ''pod-b'']"
              "[submitted ''t1'' ''default'' ''pod-a'' ''default'' ''pod-b'']"]
  by (simp add: memClient_def displayRow_def basePath_def submitted_def)




text \<open>
  C8. An action request whose action name is neither the add-traceflow nor the
  show-graph identifier (a request without a string under the key action included)
  makes \<open>actionHandler\<close> return an error; the plugin instance and the world, hence the
  list of calls issued against the store, are as before.
\<close>

theorem unknown_action_error_no_store_call:
  assumes "Payload_String request ''action'' \<noteq> Inr addTfAction"
    and "Payload_String request ''action'' \<noteq> Inr showGraphAction"
  shows "\<exists>err. actionHandler Render a request w = (Returned (Some err, a), w)"
  using assms by (simp add: actionHandler_def split: sum.splits)

theorem unknown_action_error_no_store_call_witness:
  "Payload_String [''action'' \<mapsto> JString ''traceflowPlugin/delete''] ''action''
     \<noteq> Inr addTfAction
   \<and> Payload_String [''action'' \<mapsto> JString ''traceflowPlugin/delete''] ''action''
     \<noteq> Inr showGraphAction
   \<and> (\<exists>err. actionHandler showDot \<lparr>client = memClient, graph = ''''\<rparr>
              [''action'' \<mapsto> JString ''traceflowPlugin/delete''] emptyWorld
            = (Returned (Some err, \<lparr>client = memClient, graph = ''''\<rparr>), emptyWorld))"
  using unknown_action_error_no_store_call
          [of "[''action'' \<mapsto> JString ''traceflowPlugin/delete'']" showDot
              "\<lparr>client = memClient, graph = ''''\<rparr>" emptyWorld]
  by (simp add: Payload_String_def addTfAction_def showGraphAction_def)

text \<open>
  C9. An add-traceflow request in which the string lookup of one of the five keys
  fails makes \<open>actionHandler\<close> return an error with the world as before: no create call
  has been issued and the store is unchanged.
\<close>

theorem missing_field_error_before_create:
  assumes "Payload_String request ''action'' = Inr addTfAction"
    and "\<exists>key \<in> set [''name'', ''fromNamespace'', ''fromPod'', ''toNamespace'', ''toPod''].
           \<forall>s. Payload_String request key \<noteq> Inr s"
  shows "\<exists>err. actionHandler Render a request w = (Returned (Some err, a), w)"
  using assms by (auto simp add: actionHandler_def split: sum.splits)

theorem missing_field_error_before_create_witness:
  "Payload_String [''action'' \<mapsto> JString addTfAction, ''name'' \<mapsto> JString ''t1'',
       ''fromNamespace'' \<mapsto> JString ''default'', ''fromPod'' \<mapsto> JString ''pod-a'',
       ''toNamespace'' \<mapsto> JString ''default''] ''action'' = Inr addTfAction
   \<and> (\<forall>s. Payload_String [''action'' \<mapsto> JString addTfAction, ''name'' \<mapsto> JString ''t1'',
       ''fromNamespace'' \<mapsto> JString ''default'', ''fromPod'' \<mapsto> JString ''pod-a'',
       ''toNamespace'' \<mapsto> JString ''default''] ''toPod'' \<noteq> Inr s)
   \<and> (\<exists>err. actionHandler showDot (plugin0 memClient)
         [''action'' \<mapsto> JString addTfAction, ''name'' \<mapsto> JString ''t1'',
          ''fromNamespace'' \<mapsto> JString ''default'', ''fromPod'' \<mapsto> JString ''pod-a'',
          ''toNamespace'' \<mapsto> JString ''default''] emptyWorld
        = (Returned (Some err, plugin0 memClient), emptyWorld))"
  using missing_field_error_before_create
          [of "[''action'' \<mapsto> JString addTfAction, ''name'' \<mapsto> JString ''t1'',
                ''fromNamespace'' \<mapsto> JString ''default'', ''fromPod'' \<mapsto> JString ''pod-a'',
                ''toNamespace'' \<mapsto> JString ''default'']"
              showDot "plugin0 memClient" emptyWorld]
  by (simp add: Payload_String_def)

text \<open>
  C10. When the list call succeeds, the page is the flex layout with one section and
  the table of trace requests. The section holds the graph card exactly when the stored
  graph string is not empty; when it is empty the section holds the form card alone.
\<close>

theorem graph_card_iff_graph_nonempty:
  assumes "List gclient (store w) = (Inr tfs, s')"
  shows "\<exists>members table.
           fst (traceflowHandler gclient a w) =
             Returned (\<lparr>Title = [Text ''Antrea Traceflow''],
                        Components = [FlexLayout ''Antrea Traceflow'' [members], table],
                        IconName = Some icon_Overview,
                        IconSource = Some icon_Overview\<rparr>, None)
         \<and> table = Table ''Trace List'' ''''
                     [''Trace'', ''Source Namespace'', ''Source Pod'', ''Destination Namespace'',
                      ''Destination Pod'', ''Detailed Information'']
                     (map displayRow tfs)
         \<and> ((Card ''Antrea Traceflow Graph'' (Some (Graphviz (graph a))) [], WidthFull)
               \<in> set members \<longleftrightarrow> graph a \<noteq> '''')
         \<and> (Some ''Antrea Traceflow Graph'' \<in> set (map (card_title \<circ> fst) members)
               \<longleftrightarrow> graph a \<noteq> '''')
         \<and> (graph a = '''' \<longrightarrow> map (card_title \<circ> fst) members = [Some ''Antrea Traceflow''])
         \<and> (graph a \<noteq> '''' \<longrightarrow>
               map (card_title \<circ> fst) members
                 = [Some ''Antrea Traceflow'', Some ''Antrea Traceflow Graph''])"
  using assms
  by (simp add: traceflowHandler_def getTfRows_def Traceflows_List_def tfRows_loop_map Let_def
        AddSection_def Section_Add_def flexlayout_New_def NewCard_def ToComponent_def
        TitleFromString_def tfNameCol_def srcNamespaceCol_def
        srcPodCol_def dstNamespaceCol_def dstPodCol_def crdCol_def)

text \<open>The page after a graph has been stored in the plugin instance.\<close>

theorem graph_card_iff_graph_nonempty_witness:
  "List memClient (store emptyWorld) = (Inr [], [])
   \<and> (\<exists>members table.
         fst (traceflowHandler memClient \<lparr>client = memClient, graph = ''t1; m; ''\<rparr> emptyWorld) =
           Returned (\<lparr>Title = [Text ''Antrea Traceflow''],
                      Components = [FlexLayout ''Antrea Traceflow'' [members], table],
                      IconName = Some icon_Overview,
                      IconSource = Some icon_Overview\<rparr>, None)
       \<and> (Card ''Antrea Traceflow Graph'' (Some (Graphviz ''t1; m; '')) [], WidthFull)
             \<in> set members
       \<and> map (card_title \<circ> fst) members
             = [Some ''Antrea Traceflow'', Some ''Antrea Traceflow Graph''])"
proof -
  have l: "List memClient (store emptyWorld) = (Inr [], [])"
    by (simp add: memClient_def emptyWorld_def)
  obtain members table where m1:
    "fst (traceflowHandler memClient \<lparr>client = memClient, graph = ''t1; m; ''\<rparr> emptyWorld) =
           Returned (\<lparr>Title = [Text ''Antrea Traceflow''],
                      Components = [FlexLayout ''Antrea Traceflow'' [members], table],
                      IconName = Some icon_Overview,
                      IconSource = Some icon_Overview\<rparr>, None)"
    and m2: "(Card ''Antrea Traceflow Graph'' (Some (Graphviz ''t1; m; '')) [], WidthFull)
             \<in> set members"
    and m3: "map (card_title \<circ> fst) members
             = [Some ''Antrea Traceflow'', Some ''Antrea Traceflow Graph'']"
    using graph_card_iff_graph_nonempty
            [OF l, of "\<lparr>client = memClient, graph = ''t1; m; ''\<rparr>"]
    by auto
  show ?thesis
    by (intro conjI exI [of _ members] exI [of _ table]) (rule l m1 m2 m3)+
qed

end
